theory Spec2Isabelle
  imports Main
begin

section \<open>Errors\<close>

text \<open>
  Every exception the plugin can raise is a value. \<open>AssertionError\<close> is what a failed
  \<^verbatim>\<open>assert\<close> raises (the precondition and URL checks), \<open>HTTPError\<close> is what
  \<^verbatim>\<open>response.raise_for_status()\<close> raises and carries the status code. \<open>UserWarning\<close> is the
  category of a warning issued by \<^verbatim>\<open>warnings.warn(text)\<close>; it is raised as an exception
  when the warnings filter says so, and \<open>RuntimeError\<close> is what the warnings module raises
  on a filter action it does not know.
\<close>

datatype error =
    AssertionError
  | ValueError
  | KeyError
  | OSError
  | OperationNotSupportedError
  | HTTPError int
  | ConnectionError
  | UserWarning
  | RuntimeError

section \<open>Python string primitives\<close>

text \<open>\<^verbatim>\<open>s.startswith(p)\<close> and \<^verbatim>\<open>sub in s\<close>.\<close>

definition startswith :: "string \<Rightarrow> string \<Rightarrow> bool" where
  "startswith s p = (take (length p) s = p)"

fun contains :: "string \<Rightarrow> string \<Rightarrow> bool" where
  "contains [] sub = (sub = [])"
| "contains (c # cs) sub = (startswith (c # cs) sub \<or> contains cs sub)"

text \<open>\<^verbatim>\<open>s.lower()\<close> on the ASCII letters; every other character is kept.\<close>

definition lower_char :: "char \<Rightarrow> char" where
  "lower_char c =
     (case map_of (zip ''ABCDEFGHIJKLMNOPQRSTUVWXYZ'' ''abcdefghijklmnopqrstuvwxyz'') c of
        None \<Rightarrow> c
      | Some l \<Rightarrow> l)"

definition lower :: "string \<Rightarrow> string" where
  "lower s = map lower_char s"

text \<open>\<^verbatim>\<open>s.strip(chars)\<close>, \<^verbatim>\<open>s.lstrip(chars)\<close>, \<^verbatim>\<open>s.rstrip(chars)\<close>.\<close>

definition lstrip :: "string \<Rightarrow> string \<Rightarrow> string" where
  "lstrip chars s = dropWhile (\<lambda>c. c \<in> set chars) s"

definition rstrip :: "string \<Rightarrow> string \<Rightarrow> string" where
  "rstrip chars s = rev (dropWhile (\<lambda>c. c \<in> set chars) (rev s))"

definition strip :: "string \<Rightarrow> string \<Rightarrow> string" where
  "strip chars s = rstrip chars (lstrip chars s)"

text \<open>\<^verbatim>\<open>sep.join(xs)\<close>.\<close>

fun join_str :: "string \<Rightarrow> string list \<Rightarrow> string" where
  "join_str sep [] = []"
| "join_str sep [x] = x"
| "join_str sep (x # y # ys) = x @ sep @ join_str sep (y # ys)"

text \<open>
  \<^verbatim>\<open>s.split(c)\<close> for a one-character separator: every piece between separators,
  empty pieces included. \<^verbatim>\<open>s.split(c, 1)\<close> cuts at the first separator only.
\<close>

fun split_chr :: "char \<Rightarrow> string \<Rightarrow> string list" where
  "split_chr sep [] = [[]]"
| "split_chr sep (c # cs) =
     (if c = sep then [] # split_chr sep cs
      else (case split_chr sep cs of
              [] \<Rightarrow> [[c]]
            | p # ps \<Rightarrow> (c # p) # ps))"

definition split_once :: "char \<Rightarrow> string \<Rightarrow> string \<times> string" where
  "split_once sep s =
     (takeWhile (\<lambda>c. c \<noteq> sep) s, drop 1 (dropWhile (\<lambda>c. c \<noteq> sep) s))"

text \<open>
  \<^verbatim>\<open>s.find(c)\<close> and \<^verbatim>\<open>s.rfind(c)\<close> return the index of the first
  (last) occurrence of the character, or \<open>-1\<close> when it does not occur.
\<close>

definition find_chr :: "char \<Rightarrow> string \<Rightarrow> int" where
  "find_chr c s =
     (if c \<in> set s then int (length (takeWhile (\<lambda>x. x \<noteq> c) s)) else - 1)"

definition rfind_chr :: "char \<Rightarrow> string \<Rightarrow> int" where
  "rfind_chr c s =
     (if c \<in> set s
      then int (length s) - 1 - int (length (takeWhile (\<lambda>x. x \<noteq> c) (rev s)))
      else - 1)"

text \<open>\<^verbatim>\<open>str(n)\<close> for an integer: decimal digits, with a sign when negative.\<close>

definition digit_char :: "nat \<Rightarrow> char" where
  "digit_char d = ''0123456789'' ! (d mod 10)"

fun str_nat :: "nat \<Rightarrow> string" where
  "str_nat n =
     (if n < 10 then [digit_char n] else str_nat (n div 10) @ [digit_char (n mod 10)])"

declare str_nat.simps [simp del]

definition str_int :: "int \<Rightarrow> string" where
  "str_int i = (if i < 0 then CHR ''-'' # str_nat (nat (- i)) else str_nat (nat i))"

text \<open>
  \<^verbatim>\<open>template.format(**kw)\<close> for templates made of literal text and named
  replacement fields \<^verbatim>\<open>{name}\<close>: a field is replaced by the keyword argument's
  text, and a name with no keyword argument raises KeyError.
\<close>

function format_str :: "string \<Rightarrow> (string \<times> string) list \<Rightarrow> error + string" where
  "format_str [] kw = Inr []"
| "format_str (c # cs) kw =
     (if c = CHR ''{''
      then (case map_of kw (takeWhile (\<lambda>x. x \<noteq> CHR ''}'') cs) of
              None \<Rightarrow> Inl KeyError
            | Some v \<Rightarrow>
                (case format_str (drop 1 (dropWhile (\<lambda>x. x \<noteq> CHR ''}'') cs)) kw of
                   Inl e \<Rightarrow> Inl e
                 | Inr r \<Rightarrow> Inr (v @ r)))
      else (case format_str cs kw of
              Inl e \<Rightarrow> Inl e
            | Inr r \<Rightarrow> Inr (c # r)))"
  by pat_completeness auto
termination
  by (relation "measure (\<lambda>(t, kw). length t)")
     (auto intro: le_imp_less_Suc order_trans [OF diff_le_self length_dropWhile_le])

section \<open>The connector and the connection\<close>

definition DEFAULT_HTTPS_PORT :: int where
  "DEFAULT_HTTPS_PORT = 443"

definition HTTPS_URL_TEMPLATE :: string where
  "HTTPS_URL_TEMPLATE = ''https://{server}{path}''"

definition HTTPS_URL_PORT_TEMPLATE :: string where
  "HTTPS_URL_PORT_TEMPLATE = ''https://{server}:{port}{path}''"

record HTTPSConnector =
  server :: string
  port :: int
  initial_cwd :: "string option"

record https_connection =
  connector :: HTTPSConnector
  is_open :: bool

text \<open>\<^verbatim>\<open>https_connection._get_url\<close>.\<close>

definition get_url :: "https_connection \<Rightarrow> string \<Rightarrow> error + string" where
  "get_url c path =
     (if port (connector c) = DEFAULT_HTTPS_PORT
      then format_str HTTPS_URL_TEMPLATE
             [(''server'', server (connector c)), (''path'', path)]
      else format_str HTTPS_URL_PORT_TEMPLATE
             [(''server'', server (connector c)),
              (''port'', str_int (port (connector c))),
              (''path'', path)])"


text \<open>
  \<^verbatim>\<open>int(s)\<close> on text: surrounding white space is dropped, one sign is allowed, and
  the rest is decimal digits, where single underscores may stand between digits. Anything
  else raises ValueError (here: \<open>None\<close>).
\<close>

definition is_digit :: "char \<Rightarrow> bool" where
  "is_digit c = (c \<in> set ''0123456789'')"

definition is_space :: "char \<Rightarrow> bool" where
  "is_space c = (c \<in> set [CHR 0x09, CHR 0x0A, CHR 0x0B, CHR 0x0C, CHR 0x0D, CHR 0x20])"

fun digit_groups_ok :: "string \<Rightarrow> bool" where
  "digit_groups_ok [] = False"
| "digit_groups_ok [c] = is_digit c"
| "digit_groups_ok (c # d # cs) =
     (is_digit c \<and> (if d = CHR ''_'' then digit_groups_ok cs else digit_groups_ok (d # cs)))"

definition digits_value :: "string \<Rightarrow> nat" where
  "digits_value ds = foldl (\<lambda>acc c. 10 * acc + ((of_char c :: nat) - 48)) 0 ds"

definition py_int :: "string \<Rightarrow> int option" where
  "py_int s =
     (let t = rev (dropWhile is_space (rev (dropWhile is_space s)));
          neg = (case t of [] \<Rightarrow> False | c # _ \<Rightarrow> c = CHR ''-'');
          body = (case t of [] \<Rightarrow> []
                  | c # r \<Rightarrow> if c = CHR ''-'' \<or> c = CHR ''+'' then r else t)
      in if digit_groups_ok body
         then (let v = int (digits_value (filter (\<lambda>c. c \<noteq> CHR ''_'') body))
               in Some (if neg then - v else v))
         else None)"

section \<open>Paths, the outside world and the external collaborators\<close>

text \<open>
  A path argument is either plain text or a \<^verbatim>\<open>Path\<close> object: text bound to a
  connection. The connection of a \<^verbatim>\<open>Path\<close> is this plugin's connection, the
  local file system connection, or a connection of some other type.
\<close>

datatype conn_ref = Https https_connection | Local_fs | Other_fs

datatype path_arg = Str string | PathObj string conn_ref

fun path_str :: "path_arg \<Rightarrow> string" where
  "path_str (Str s) = s"
| "path_str (PathObj s r) = s"

text \<open>
  The HTTP client: each call names the method, the URL it was given and, for PUT, the
  body. A response carries a status code and a body.
\<close>

datatype http_request = GET string | PUT string string | DELETE string

record response =
  status_code :: int
  content :: string

text \<open>
  The actions a warnings filter can name (\<^verbatim>\<open>warnings.filters\<close> and
  \<^verbatim>\<open>warnings.defaultaction\<close>); \<open>Act_unrecognized\<close> stands for any other string put
  there.
\<close>

datatype warn_action =
    Act_error
  | Act_ignore
  | Act_always
  | Act_default
  | Act_module
  | Act_once
  | Act_unrecognized

text \<open>
  The world the connection acts on: the calls made to the HTTP client so far (oldest
  first), the local files, and the state of the \<^verbatim>\<open>warnings\<close> module as seen from the one
  call site of \<^verbatim>\<open>warnings.warn\<close> in the plugin:

    \<^item> \<open>warnings\<close>: the warnings shown so far (oldest first);
    \<^item> \<open>warn_filter\<close>: the action the search through \<^verbatim>\<open>warnings.filters\<close> (or, when no
      filter matches, \<^verbatim>\<open>warnings.defaultaction\<close>) gives for a \<open>UserWarning\<close> with this text
      from this call site;
    \<^item> \<open>filters_version\<close>: \<^verbatim>\<open>warnings._filters_version\<close>, and \<open>registry_version\<close>: the
      version recorded in the module's \<^verbatim>\<open>__warningregistry__\<close> (0 when none is);
    \<^item> \<open>warn_registry\<close>: the texts whose key \<^verbatim>\<open>(text, category, lineno)\<close> is in that
      registry, and \<open>warn_alt_registry\<close>: those whose key \<^verbatim>\<open>(text, category, 0)\<close> is;
    \<^item> \<open>once_registry\<close>: the texts whose key is in the global \<^verbatim>\<open>warnings.onceregistry\<close>;
    \<^item> \<open>showwarning\<close>: what showing a warning does, \<open>None\<close> when it returns and
      \<open>Some e\<close> when it raises \<open>e\<close> (the hook \<^verbatim>\<open>warnings.showwarning\<close> can be replaced, and
      the standard one writes to \<^verbatim>\<open>sys.stderr\<close>, ignoring an \<open>OSError\<close> only).
\<close>

record world =
  http_log :: "http_request list"
  files :: "string \<Rightarrow> string option"
  warnings :: "string list"
  warn_filter :: "string \<Rightarrow> warn_action"
  filters_version :: nat
  registry_version :: nat
  warn_registry :: "string list"
  warn_alt_registry :: "string list"
  once_registry :: "string list"
  showwarning :: "string \<Rightarrow> error option"

text \<open>
  What the plugin takes from outside and this development therefore takes as parameters:
  \<^item> \<open>check_path\<close>: the framework's \<^verbatim>\<open>fs_connection.check_path\<close>, which turns a
    path argument into text or raises;
  \<^item> \<open>split_port\<close>: the framework's \<^verbatim>\<open>strings.split_port\<close>;
  \<^item> \<open>get_temp_file_path\<close>: the local file system connection's temporary path for a
    name;
  \<^item> \<open>respond\<close>: what the HTTP client answers to a call, given the calls made before it:
    a response, or an exception of the client;
  \<^item> \<open>bracketed_host_ok\<close> and \<open>netloc_nfkc_ok\<close>: the two checks of the standard
    library's URL parser that depend on IP address syntax and Unicode normalisation;
  \<^item> \<open>fsconnector_connect\<close>: the framework's \<^verbatim>\<open>FSConnector.connect\<close>, which makes the
    connection for a connector or raises.
\<close>

record env =
  check_path :: "https_connection \<Rightarrow> path_arg \<Rightarrow> error + string"
  split_port :: "string \<Rightarrow> int \<Rightarrow> error + (string \<times> int)"
  get_temp_file_path :: "string \<Rightarrow> string"
  respond :: "http_request list \<Rightarrow> http_request \<Rightarrow> error + response"
  bracketed_host_ok :: "string \<Rightarrow> bool"
  netloc_nfkc_ok :: "string \<Rightarrow> bool"
  fsconnector_connect :: "HTTPSConnector \<Rightarrow> error + https_connection"

text \<open>
  A call to the HTTP client is logged, and answered by \<open>respond\<close>.
\<close>

definition http_send :: "env \<Rightarrow> http_request \<Rightarrow> world \<Rightarrow> (error + response) \<times> world" where
  "http_send E req w = (respond E (http_log w) req, w\<lparr>http_log := http_log w @ [req]\<rparr>)"

text \<open>
  \<^verbatim>\<open>response.raise_for_status()\<close> raises HTTPError for a status from 400 to 599;
  \<^verbatim>\<open>response.ok\<close> is whether it would not raise.
\<close>

definition raise_for_status :: "response \<Rightarrow> error + unit" where
  "raise_for_status r =
     (if 400 \<le> status_code r \<and> status_code r < 600
      then Inl (HTTPError (status_code r)) else Inr ())"

definition ok :: "response \<Rightarrow> bool" where
  "ok r = (case raise_for_status r of Inl e \<Rightarrow> False | Inr u \<Rightarrow> True)"

section \<open>Path names (\<^verbatim>\<open>os.path\<close> on POSIX)\<close>

definition basename :: "string \<Rightarrow> string" where
  "basename p = (let i = rfind_chr CHR ''/'' p + 1 in drop (nat i) p)"


section \<open>URL parsing (\<^verbatim>\<open>urllib.parse.urlparse\<close>)\<close>

record url_parts =
  url_scheme :: string
  url_netloc :: string
  url_path :: string
  url_params :: string
  url_query :: string
  url_fragment :: string

definition scheme_chars :: string where
  "scheme_chars =
     ''abcdefghijklmnopqrstuvwxyzABCDEFGHIJKLMNOPQRSTUVWXYZ0123456789+-.''"

definition uses_params :: "string list" where
  "uses_params =
     ['''', ''ftp'', ''hdl'', ''prospero'', ''http'', ''imap'', ''https'', ''shttp'',
      ''rtsp'', ''rtsps'', ''rtspu'', ''sip'', ''sips'', ''mms'', ''sftp'', ''tel'']"

definition is_ascii_alpha :: "char \<Rightarrow> bool" where
  "is_ascii_alpha c =
     (c \<in> set ''abcdefghijklmnopqrstuvwxyzABCDEFGHIJKLMNOPQRSTUVWXYZ'')"

definition is_ascii :: "string \<Rightarrow> bool" where
  "is_ascii s = list_all (\<lambda>c. (of_char c :: nat) < 128) s"

text \<open>
  \<^verbatim>\<open>_splitnetloc(url, 2)\<close>: the network location runs from index 2 to the earliest
  of the delimiters \<^verbatim>\<open>/ ? #\<close>, or to the end of the text.
\<close>

definition splitnetloc :: "string \<Rightarrow> string \<times> string" where
  "splitnetloc url =
     (takeWhile (\<lambda>c. c \<notin> set ''/?#'') (drop 2 url),
      dropWhile (\<lambda>c. c \<notin> set ''/?#'') (drop 2 url))"

text \<open>
  \<^verbatim>\<open>_splitparams\<close>: the parameters follow the first \<^verbatim>\<open>;\<close> of the last path
  segment. \<^verbatim>\<open>urlparse\<close> calls it only on a path in which \<^verbatim>\<open>;\<close> occurs.
\<close>

definition splitparams :: "string \<Rightarrow> string \<times> string" where
  "splitparams url =
     (if CHR ''/'' \<in> set url
      then (let start = nat (rfind_chr CHR ''/'' url);
                k = find_chr CHR '';'' (drop start url)
            in if k < 0 then (url, [])
               else (take (start + nat k) url, drop (start + nat k + 1) url))
      else (let i = find_chr CHR '';'' url
            in (take (nat i) url, drop (nat i + 1) url)))"

text \<open>
  The tail of \<^verbatim>\<open>urlsplit\<close>: cut the fragment at the first \<^verbatim>\<open>#\<close>, then the query
  at the first \<^verbatim>\<open>?\<close>, then \<^verbatim>\<open>_checknetloc\<close>. The result is (scheme, netloc,
  path, query, fragment).
\<close>

definition split_rest ::
  "env \<Rightarrow> string \<Rightarrow> string \<Rightarrow> string
     \<Rightarrow> error + (string \<times> string \<times> string \<times> string \<times> string)" where
  "split_rest E scheme netloc url =
     (let (url1, fragment) =
            (if CHR ''#'' \<in> set url then split_once CHR ''#'' url else (url, []));
          (url2, query) =
            (if CHR ''?'' \<in> set url1 then split_once CHR ''?'' url1 else (url1, []))
      in if netloc \<noteq> [] \<and> \<not> is_ascii netloc \<and> \<not> netloc_nfkc_ok E netloc
         then Inl ValueError
         else Inr (scheme, netloc, url2, query, fragment))"

definition urlsplit ::
  "env \<Rightarrow> string \<Rightarrow> error + (string \<times> string \<times> string \<times> string \<times> string)" where
  "urlsplit E url0 =
     (let url = dropWhile (\<lambda>c. (of_char c :: nat) \<le> 32) url0;
          url = filter (\<lambda>c. c \<notin> set [CHR 0x09, CHR 0x0D, CHR 0x0A]) url;
          i = find_chr CHR '':'' url;
          has_scheme =
            (i > 0 \<and> (case url of [] \<Rightarrow> False | c # cs \<Rightarrow> is_ascii_alpha c)
             \<and> list_all (\<lambda>c. c \<in> set scheme_chars) (take (nat i) url));
          scheme = (if has_scheme then lower (take (nat i) url) else []);
          url = (if has_scheme then drop (nat i + 1) url else url)
      in if take 2 url = ''//''
         then (let (netloc, rest) = splitnetloc url
               in if (CHR ''['' \<in> set netloc \<and> CHR '']'' \<notin> set netloc)
                     \<or> (CHR '']'' \<in> set netloc \<and> CHR ''['' \<notin> set netloc)
                  then Inl ValueError
                  else if CHR ''['' \<in> set netloc \<and> CHR '']'' \<in> set netloc
                          \<and> \<not> bracketed_host_ok E
                                (takeWhile (\<lambda>c. c \<noteq> CHR '']'')
                                   (drop 1 (dropWhile (\<lambda>c. c \<noteq> CHR ''['') netloc)))
                  then Inl ValueError
                  else split_rest E scheme netloc rest)
         else split_rest E scheme [] url)"

definition urlparse :: "env \<Rightarrow> string \<Rightarrow> error + url_parts" where
  "urlparse E url =
     (case urlsplit E url of
        Inl e \<Rightarrow> Inl e
      | Inr (scheme, netloc, path, query, fragment) \<Rightarrow>
          (let (path1, params) =
                 (if scheme \<in> set uses_params \<and> CHR '';'' \<in> set path
                  then splitparams path else (path, []))
           in Inr \<lparr>url_scheme = scheme, url_netloc = netloc, url_path = path1,
                    url_params = params, url_query = query, url_fragment = fragment\<rparr>))"

section \<open>The connector\<close>

text \<open>
  \<^verbatim>\<open>HTTPSConnector.__init__\<close>: the server text must not be empty, and is split into
  server and port by the framework, with 443 as the default port.
\<close>

definition HTTPSConnector_init ::
  "env \<Rightarrow> string \<Rightarrow> string option \<Rightarrow> error + HTTPSConnector" where
  "HTTPSConnector_init E server_arg cwd =
     (if server_arg = [] then Inl ValueError
      else (case split_port E server_arg DEFAULT_HTTPS_PORT of
              Inl e \<Rightarrow> Inl e
            | Inr (s, p) \<Rightarrow> Inr \<lparr>server = s, port = p, initial_cwd = cwd\<rparr>))"

text \<open>\<^verbatim>\<open>HTTPSConnector.connect\<close>: whatever the framework's \<^verbatim>\<open>connect\<close> returns.\<close>

definition connect :: "env \<Rightarrow> HTTPSConnector \<Rightarrow> error + https_connection" where
  "connect E k = fsconnector_connect E k"

text \<open>
  The address of \<^verbatim>\<open>load_url\<close>: with a colon, \<^verbatim>\<open>server, port = address.split(':')\<close>
  needs exactly two pieces and \<^verbatim>\<open>int(port)\<close> must parse; without, the port is 443.
\<close>

definition split_address :: "string \<Rightarrow> error + (string \<times> int)" where
  "split_address address =
     (if CHR '':'' \<in> set address
      then (case split_chr CHR '':'' address of
              [s, p] \<Rightarrow> (case py_int p of None \<Rightarrow> Inl ValueError | Some n \<Rightarrow> Inr (s, n))
            | _ \<Rightarrow> Inl ValueError)
      else Inr (address, DEFAULT_HTTPS_PORT))"

text \<open>
  \<^verbatim>\<open>HTTPSConnector.load_url\<close>, for a manager that is a \<^verbatim>\<open>ConfigManager\<close> and a URL that
  is a \<^verbatim>\<open>str\<close> (the two \<^verbatim>\<open>verify_type\<close> checks pass). The text of the resulting
  \<^verbatim>\<open>Path\<close> is its first constructor argument.
\<close>

definition load_url :: "env \<Rightarrow> string \<Rightarrow> error + path_arg" where
  "load_url E url0 =
     (let url = (if \<not> contains url0 ''://'' then ''https://'' @ url0 else url0)
      in case urlparse E url of
           Inl e \<Rightarrow> Inl e
         | Inr u \<Rightarrow>
             if \<not> (url_params u = [] \<and> url_fragment u = []) then Inl AssertionError
             else if lower (url_scheme u) \<noteq> ''https'' then Inl AssertionError
             else if CHR ''@'' \<in> set (url_netloc u) then Inl AssertionError
             else (case split_address (url_netloc u) of
                     Inl e \<Rightarrow> Inl e
                   | Inr (srv, prt) \<Rightarrow>
                       (case HTTPSConnector_init E (srv @ '':'' @ str_int prt) None of
                          Inl e \<Rightarrow> Inl e
                        | Inr k \<Rightarrow>
                            (case connect E k of
                               Inl e \<Rightarrow> Inl e
                             | Inr conn \<Rightarrow>
                                 Inr (PathObj (url_path u @ ''?'' @ url_query u)
                                        (Https conn))))))"

section \<open>The connection\<close>

text \<open>\<^verbatim>\<open>https_connection.name\<close> and \<^verbatim>\<open>https_connection.dir\<close>.\<close>

definition name :: "env \<Rightarrow> https_connection \<Rightarrow> path_arg \<Rightarrow> error + string" where
  "name E c path =
     (case check_path E c path of
        Inl e \<Rightarrow> Inl e
      | Inr p \<Rightarrow>
          (case urlparse E p of
             Inl e \<Rightarrow> Inl e
           | Inr u \<Rightarrow> Inr (basename (url_path u))))"


text \<open>
  \<^verbatim>\<open>warnings.warn(text)\<close>, after \<^verbatim>\<open>warn_explicit\<close> of the standard library. A registry
  written under another version of the filters is emptied first.
\<close>

definition refresh_registry :: "world \<Rightarrow> world" where
  "refresh_registry w =
     (if registry_version w \<noteq> filters_version w
      then w\<lparr>registry_version := filters_version w,
              warn_registry := [], warn_alt_registry := []\<rparr>
      else w)"

text \<open>\<^verbatim>\<open>_showwarnmsg\<close>: the warning is shown, unless showing it raises.\<close>

definition showwarnmsg :: "string \<Rightarrow> world \<Rightarrow> (error + unit) \<times> world" where
  "showwarnmsg message w =
     (case showwarning w message of
        Some e \<Rightarrow> (Inl e, w)
      | None \<Rightarrow> (Inr (), w\<lparr>warnings := warnings w @ [message]\<rparr>))"

text \<open>
  A warning whose key is in the registry returns at once. Otherwise the action of the
  filter decides: \<open>ignore\<close> returns, \<open>error\<close> raises the warning as an exception, \<open>once\<close>,
  \<open>module\<close> and \<open>default\<close> enter the key in the registry and show the warning unless
  it was shown before, \<open>always\<close> shows it, anything else is a \<open>RuntimeError\<close>.
\<close>

definition warn :: "string \<Rightarrow> world \<Rightarrow> (error + unit) \<times> world" where
  "warn message w0 =
     (let w = refresh_registry w0
      in if message \<in> set (warn_registry w) then (Inr (), w)
         else (case warn_filter w message of
                 Act_ignore \<Rightarrow> (Inr (), w)
               | Act_error \<Rightarrow> (Inl UserWarning, w)
               | Act_once \<Rightarrow>
                   (let w1 = w\<lparr>warn_registry := message # warn_registry w\<rparr>
                    in if message \<in> set (once_registry w1) then (Inr (), w1)
                       else showwarnmsg message
                              (w1\<lparr>once_registry := message # once_registry w1\<rparr>))
               | Act_always \<Rightarrow> showwarnmsg message w
               | Act_module \<Rightarrow>
                   (let w1 = w\<lparr>warn_registry := message # warn_registry w\<rparr>
                    in if message \<in> set (warn_alt_registry w1) then (Inr (), w1)
                       else showwarnmsg message
                              (w1\<lparr>warn_alt_registry := message # warn_alt_registry w1\<rparr>))
               | Act_default \<Rightarrow>
                   showwarnmsg message (w\<lparr>warn_registry := message # warn_registry w\<rparr>)
               | Act_unrecognized \<Rightarrow> (Inl RuntimeError, w)))"

text \<open>
  \<^verbatim>\<open>https_connection.close\<close>: the result, the connection afterwards and the world
  afterwards. On a connection that is not open it calls \<^verbatim>\<open>warnings.warn\<close> first; when
  that raises, the assignment to the flag is not reached.
\<close>

definition close ::
  "https_connection \<Rightarrow> world \<Rightarrow> (error + unit) \<times> https_connection \<times> world" where
  "close c w =
     (if \<not> is_open c
      then (case warn ''Double-closing HTTPS connection.'' w of
              (Inl e, w1) \<Rightarrow> (Inl e, c, w1)
            | (Inr u, w1) \<Rightarrow> (Inr (), c\<lparr>is_open := False\<rparr>, w1))
      else (Inr (), c\<lparr>is_open := False\<rparr>, w))"

text \<open>\<^verbatim>\<open>https_connection._download\<close>.\<close>

definition download ::
  "env \<Rightarrow> https_connection \<Rightarrow> path_arg \<Rightarrow> string \<Rightarrow> world \<Rightarrow> (error + unit) \<times> world" where
  "download E c remote_path local_path w =
     (if \<not> is_open c then (Inl AssertionError, w)
      else (case check_path E c remote_path of
              Inl e \<Rightarrow> (Inl e, w)
            | Inr rp \<Rightarrow>
                (case get_url c rp of
                   Inl e \<Rightarrow> (Inl e, w)
                 | Inr url \<Rightarrow>
                     (case http_send E (GET url) w of
                        (Inl e, w1) \<Rightarrow> (Inl e, w1)
                      | (Inr resp, w1) \<Rightarrow>
                          (case raise_for_status resp of
                             Inl e \<Rightarrow> (Inl e, w1)
                           | Inr u \<Rightarrow>
                               (Inr (),
                                w1\<lparr>files := (files w1)(local_path \<mapsto> content resp)\<rparr>))))))"

text \<open>
  \<^verbatim>\<open>https_connection._upload\<close>. A \<^verbatim>\<open>Path\<close> given as the local path must be bound
  to the local file system connection. The PUT is given the checked remote path and the
  content of the local file.
\<close>

definition upload ::
  "env \<Rightarrow> https_connection \<Rightarrow> path_arg \<Rightarrow> path_arg \<Rightarrow> world \<Rightarrow> (error + unit) \<times> world" where
  "upload E c local_path remote_path w =
     (if \<not> is_open c then (Inl AssertionError, w)
      else (case (case local_path of
                    PathObj s r \<Rightarrow> if r = Local_fs then Inr s else Inl AssertionError
                  | Str s \<Rightarrow> Inr s) of
              Inl e \<Rightarrow> (Inl e, w)
            | Inr lp \<Rightarrow>
                (case check_path E c remote_path of
                   Inl e \<Rightarrow> (Inl e, w)
                 | Inr rp \<Rightarrow>
                     (case files w lp of
                        None \<Rightarrow> (Inl OSError, w)
                      | Some local_copy \<Rightarrow>
                          (case http_send E (PUT rp local_copy) w of
                             (Inl e, w1) \<Rightarrow> (Inl e, w1)
                           | (Inr resp, w1) \<Rightarrow>
                               (case raise_for_status resp of
                                  Inl e \<Rightarrow> (Inl e, w1)
                                | Inr u \<Rightarrow> (Inr (), w1)))))))"

text \<open>
  \<^verbatim>\<open>https_connection.open_file\<close>. The result stands for the \<^verbatim>\<open>ProxyFile\<close> the
  method builds: the remote \<^verbatim>\<open>Path\<close>, the mode, the temporary file and the write-back,
  which is nothing or this connection's \<^verbatim>\<open>_upload\<close>. The buffering, encoding and
  opener arguments are handed on unchanged and left out.
\<close>

datatype writeback = Upload https_connection

record proxy_file =
  pf_path :: path_arg
  pf_mode :: string
  pf_proxy_path :: string
  pf_writeback :: "writeback option"

definition open_file ::
  "env \<Rightarrow> https_connection \<Rightarrow> path_arg \<Rightarrow> string \<Rightarrow> world \<Rightarrow> (error + proxy_file) \<times> world" where
  "open_file E c path mode0 w =
     (if \<not> is_open c then (Inl AssertionError, w)
      else (let mode = lower mode0
            in case check_path E c path of
                 Inl e \<Rightarrow> (Inl e, w)
               | Inr p \<Rightarrow>
                   (case name E c (Str p) of
                      Inl e \<Rightarrow> (Inl e, w)
                    | Inr nm \<Rightarrow>
                        (let temp_path = get_temp_file_path E nm
                         in case (if mode \<notin> set [''w'', ''wb'']
                                  then download E c (Str p) temp_path w
                                  else (Inr (), w)) of
                              (Inl e, w1) \<Rightarrow> (Inl e, w1)
                            | (Inr u, w1) \<Rightarrow>
                                (Inr \<lparr>pf_path = PathObj p (Https c),
                                      pf_mode = mode,
                                      pf_proxy_path = temp_path,
                                      pf_writeback =
                                        (if mode \<in> set [''r'', ''rb''] then None
                                         else Some (Upload c))\<rparr>,
                                 w1)))))"

text \<open>The operations that HTTPS does not support, and \<^verbatim>\<open>is_dir\<close>.\<close>

definition list_op :: "https_connection \<Rightarrow> path_arg \<Rightarrow> string \<Rightarrow> error + string list" where
  "list_op c path pattern = Inl OperationNotSupportedError"

definition size_op :: "https_connection \<Rightarrow> path_arg \<Rightarrow> error + int" where
  "size_op c path = Inl OperationNotSupportedError"

definition modified_time :: "https_connection \<Rightarrow> path_arg \<Rightarrow> error + int" where
  "modified_time c path = Inl OperationNotSupportedError"

definition make_dir ::
  "https_connection \<Rightarrow> path_arg \<Rightarrow> bool \<Rightarrow> bool \<Rightarrow> bool \<Rightarrow> bool option \<Rightarrow> error + unit" where
  "make_dir c path overwrite clear fill check_only = Inl OperationNotSupportedError"

definition rename :: "https_connection \<Rightarrow> path_arg \<Rightarrow> string \<Rightarrow> error + unit" where
  "rename c path new_name = Inl OperationNotSupportedError"

definition is_dir :: "https_connection \<Rightarrow> path_arg \<Rightarrow> bool" where
  "is_dir c path = False"

text \<open>\<^verbatim>\<open>https_connection.remove\<close>.\<close>

definition remove_op ::
  "env \<Rightarrow> https_connection \<Rightarrow> path_arg \<Rightarrow> world \<Rightarrow> (error + unit) \<times> world" where
  "remove_op E c path w =
     (if \<not> is_open c then (Inl AssertionError, w)
      else (case check_path E c path of
              Inl e \<Rightarrow> (Inl e, w)
            | Inr p \<Rightarrow>
                if is_dir c (Str p) then (Inl OperationNotSupportedError, w)
                else (case get_url c p of
                        Inl e \<Rightarrow> (Inl e, w)
                      | Inr url \<Rightarrow>
                          (case http_send E (DELETE url) w of
                             (Inl e, w1) \<Rightarrow> (Inl e, w1)
                           | (Inr resp, w1) \<Rightarrow>
                               (case raise_for_status resp of
                                  Inl e \<Rightarrow> (Inl e, w1)
                                | Inr u \<Rightarrow> (Inr (), w1))))))"

text \<open>\<^verbatim>\<open>https_connection.is_file\<close>.\<close>

definition is_file ::
  "env \<Rightarrow> https_connection \<Rightarrow> path_arg \<Rightarrow> world \<Rightarrow> (error + bool) \<times> world" where
  "is_file E c path w =
     (case check_path E c path of
        Inl e \<Rightarrow> (Inl e, w)
      | Inr p \<Rightarrow>
          (case get_url c p of
             Inl e \<Rightarrow> (Inl e, w)
           | Inr url \<Rightarrow>
               (case http_send E (GET url) w of
                  (Inl e, w1) \<Rightarrow> (Inl e, w1)
                | (Inr resp, w1) \<Rightarrow> (Inr (ok resp), w1))))"

text \<open>
  \<^verbatim>\<open>https_connection.join\<close>. The elements are checked one after the other, and the
  first failure ends the call. The characters stripped from both ends of each checked
  element are the slash and the backslash. Without elements the result is
  \<^verbatim>\<open>Path(connection=self)\<close>, the path constructed with no text, written here as the
  path with the empty text.
\<close>

fun check_all :: "env \<Rightarrow> https_connection \<Rightarrow> path_arg list \<Rightarrow> error + string list" where
  "check_all E c [] = Inr []"
| "check_all E c (x # xs) =
     (case check_path E c x of
        Inl e \<Rightarrow> Inl e
      | Inr s \<Rightarrow>
          (case check_all E c xs of
             Inl e \<Rightarrow> Inl e
           | Inr ss \<Rightarrow> Inr (strip [CHR ''/'', CHR 0x5C] s # ss)))"

definition join :: "env \<Rightarrow> https_connection \<Rightarrow> path_arg list \<Rightarrow> error + path_arg" where
  "join E c path_elements =
     (case path_elements of
        [] \<Rightarrow> Inr (PathObj [] (Https c))
      | first # others \<Rightarrow>
          (let starting_slash = startswith (path_str first) ''/''
           in case check_all E c path_elements of
                Inl e \<Rightarrow> Inl e
              | Inr elems \<Rightarrow>
                  Inr (PathObj
                         (join_str ''/'' (if starting_slash then [] # elems else elems))
                         (Https c))))"

text \<open>
  The joined text as the specification words it, to be compared with \<open>join\<close>: from each
  segment the leading and trailing slashes are stripped, the stripped segments are joined
  with a slash, and one empty segment is put in front exactly when the first segment
  started with a slash.
\<close>

definition join_spec :: "string list \<Rightarrow> string" where
  "join_spec segments =
     join_str ''/''
       ((case segments of
           [] \<Rightarrow> []
         | first # others \<Rightarrow> (if startswith first ''/'' then [[]] else []))
        @ map (strip ''/'') segments)"



section \<open>A sample environment\<close>

text \<open>
  One concrete choice of the collaborators, for evaluating the operations on concrete
  inputs: \<open>check_path\<close> returns the text of the path, \<open>split_port\<close> splits at the
  colon, temporary files live under \<^verbatim>\<open>/tmp/\<close>, the server answers every call
  with status 200 and the body \<^verbatim>\<open>body\<close>, and \<open>connect\<close> gives a connection that is
  not open.
\<close>

definition sample_env :: env where
  "sample_env =
     \<lparr>check_path = (\<lambda>c p. Inr (path_str p)),
      split_port =
        (\<lambda>s d. case split_chr CHR '':'' s of
                  [h] \<Rightarrow> Inr (h, d)
                | [h, p] \<Rightarrow> (case py_int p of None \<Rightarrow> Inl ValueError | Some n \<Rightarrow> Inr (h, n))
                | _ \<Rightarrow> Inl ValueError),
      get_temp_file_path = (\<lambda>n. ''/tmp/'' @ n),
      respond = (\<lambda>log req. Inr \<lparr>status_code = 200, content = ''body''\<rparr>),
      bracketed_host_ok = (\<lambda>h. True),
      netloc_nfkc_ok = (\<lambda>n. True),
      fsconnector_connect = (\<lambda>k. Inr \<lparr>connector = k, is_open = False\<rparr>)\<rparr>"

definition sample_connection :: https_connection where
  "sample_connection =
     \<lparr>connector = \<lparr>server = ''example.com'', port = 443, initial_cwd = None\<rparr>,
      is_open = True\<rparr>"

definition sample_world :: world where
  "sample_world =
     \<lparr>http_log = [], files = [''/tmp/f'' \<mapsto> ''data''], warnings = [],
      warn_filter = (\<lambda>message. Act_default), filters_version = 1, registry_version = 0,
      warn_registry = [], warn_alt_registry = [], once_registry = [],
      showwarning = (\<lambda>message. None)\<rparr>"

section \<open>URL building\<close>

lemma format_default_template:
  "format_str HTTPS_URL_TEMPLATE [(''server'', h), (''path'', p)] = Inr (''https://'' @ h @ p)"
  by (simp add: HTTPS_URL_TEMPLATE_def)

lemma format_port_template:
  "format_str HTTPS_URL_PORT_TEMPLATE [(''server'', h), (''port'', n), (''path'', p)]
     = Inr (''https://'' @ h @ '':'' @ n @ p)"
  by (simp add: HTTPS_URL_PORT_TEMPLATE_def)

lemma get_url_eq:
  "get_url c p =
     Inr (if port (connector c) = 443
          then ''https://'' @ server (connector c) @ p
          else ''https://'' @ server (connector c) @ '':'' @ str_int (port (connector c)) @ p)"
  by (simp add: get_url_def DEFAULT_HTTPS_PORT_def format_default_template format_port_template)

lemma str_int_8080: "str_int 8080 = ''8080''"
  by (simp add: str_int_def str_nat.simps digit_char_def)

text \<open>
  Claim C3. For every host \<open>H\<close>, port \<open>P\<close> and path text \<open>p\<close>, the URL builder of a
  connection whose connector holds \<open>H\<close> and \<open>P\<close> never fails and returns
  \<open>https://\<close> + \<open>H\<close> + \<open>p\<close> when \<open>P\<close> is the default port 443, and
  \<open>https://\<close> + \<open>H\<close> + \<open>:\<close> + the decimal text of \<open>P\<close> + \<open>p\<close> otherwise: the
  port is left out exactly when it is the default.
\<close>

theorem get_url_default_port_elided:
  "get_url \<lparr>connector = \<lparr>server = H, port = P, initial_cwd = d\<rparr>, is_open = b\<rparr> p =
     Inr (if P = 443 then ''https://'' @ H @ p
          else ''https://'' @ H @ '':'' @ str_int P @ p)"
  by (simp add: get_url_def DEFAULT_HTTPS_PORT_def format_default_template format_port_template)

theorem get_url_default_port_elided_witness:
  "get_url \<lparr>connector = \<lparr>server = ''example.com'', port = 8080, initial_cwd = None\<rparr>,
            is_open = True\<rparr> ''/x''
     = Inr ''https://example.com:8080/x''
   \<and> get_url \<lparr>connector = \<lparr>server = ''example.com'', port = 443, initial_cwd = None\<rparr>,
              is_open = False\<rparr> ''/x''
     = Inr ''https://example.com/x''"
  using get_url_default_port_elided [of "''example.com''" 8080 None True "''/x''"]
        get_url_default_port_elided [of "''example.com''" 443 None False "''/x''"]
  by (simp add: str_int_8080)

section \<open>Closing\<close>

text \<open>
  What \<open>warn\<close> does to the world: it makes no HTTP call, touches no file, and leaves the
  filter, the display hook and the version of the filters alone.
\<close>

lemma refresh_registry_keeps:
  "http_log (refresh_registry w) = http_log w"
  "files (refresh_registry w) = files w"
  "warnings (refresh_registry w) = warnings w"
  "warn_filter (refresh_registry w) = warn_filter w"
  "once_registry (refresh_registry w) = once_registry w"
  "showwarning (refresh_registry w) = showwarning w"
  by (simp_all add: refresh_registry_def)

lemma showwarnmsg_keeps:
  "http_log (snd (showwarnmsg m w)) = http_log w"
  "files (snd (showwarnmsg m w)) = files w"
  by (simp_all add: showwarnmsg_def split: option.split)

lemma warn_keeps:
  "http_log (snd (warn m w)) = http_log w"
  "files (snd (warn m w)) = files w"
  by (simp_all add: warn_def Let_def showwarnmsg_keeps refresh_registry_keeps
        split: warn_action.split)

text \<open>
  The model of the warnings filter at work: the connection is closed three times after
  it was closed. Under \<open>default\<close> the warning is shown once, under \<open>always\<close> three times,
  under \<open>ignore\<close> never; in each case the third call returns.
\<close>

lemma close_thrice_default:
  "(case close (sample_connection\<lparr>is_open := False\<rparr>) sample_world of (r1, c1, w1) \<Rightarrow>
     case close c1 w1 of (r2, c2, w2) \<Rightarrow>
     case close c2 w2 of (r3, c3, w3) \<Rightarrow> (r1, r2, r3, is_open c3, warnings w3))
   = (Inr (), Inr (), Inr (), False, [''Double-closing HTTPS connection.''])"
  by (simp add: close_def warn_def showwarnmsg_def refresh_registry_def
        sample_connection_def sample_world_def)

lemma close_thrice_always:
  "(case close (sample_connection\<lparr>is_open := False\<rparr>)
           (sample_world\<lparr>warn_filter := (\<lambda>m. Act_always)\<rparr>) of (r1, c1, w1) \<Rightarrow>
     case close c1 w1 of (r2, c2, w2) \<Rightarrow>
     case close c2 w2 of (r3, c3, w3) \<Rightarrow> (r1, r2, r3, is_open c3, warnings w3))
   = (Inr (), Inr (), Inr (), False,
      [''Double-closing HTTPS connection.'', ''Double-closing HTTPS connection.'',
       ''Double-closing HTTPS connection.''])"
  by (simp add: close_def warn_def showwarnmsg_def refresh_registry_def
        sample_connection_def sample_world_def)

lemma close_thrice_ignore:
  "(case close (sample_connection\<lparr>is_open := False\<rparr>)
           (sample_world\<lparr>warn_filter := (\<lambda>m. Act_ignore)\<rparr>) of (r1, c1, w1) \<Rightarrow>
     case close c1 w1 of (r2, c2, w2) \<Rightarrow>
     case close c2 w2 of (r3, c3, w3) \<Rightarrow> (r1, r2, r3, is_open c3, warnings w3))
   = (Inr (), Inr (), Inr (), False, [])"
  by (simp add: close_def warn_def showwarnmsg_def refresh_registry_def
        sample_connection_def sample_world_def)

text \<open>
  Claim C6, as stated, does not hold: \<open>close\<close> can raise. On a connection that is
  already closed, with a warnings filter whose action for the double-close warning is
  \<open>error\<close> (as under \<^verbatim>\<open>python -W error\<close> or \<^verbatim>\<open>warnings.simplefilter('error')\<close>),
  \<^verbatim>\<open>warnings.warn\<close> raises the warning as a \<open>UserWarning\<close> exception and \<open>close\<close> lets
  it through.
\<close>

theorem close_raises_under_error_filter:
  "fst (close (sample_connection\<lparr>is_open := False\<rparr>)
          (sample_world\<lparr>warn_filter := (\<lambda>m. Act_error)\<rparr>)) = Inl UserWarning
   \<and> fst (close (sample_connection\<lparr>is_open := False\<rparr>)
          (sample_world\<lparr>warn_filter := (\<lambda>m. Act_error)\<rparr>)) \<noteq> Inr ()"
  by (simp add: close_def warn_def refresh_registry_def
        sample_connection_def sample_world_def)

text \<open>
  Claim C6, amended. For every connection, open or closed, the connection is not open
  after \<open>close\<close>, whether \<open>close\<close> returned or raised; the connector is the same, no HTTP
  call is made and no local file is touched. On an open connection \<open>close\<close> returns
  without an error and leaves the world as it was. On a connection that is already
  closed, \<open>close\<close> raises an error \<open>e\<close> exactly when the double-close warning is not in the
  registry of warnings already issued and

    \<^item> the action of the warnings filter is \<open>error\<close>, and \<open>e\<close> is the \<open>UserWarning\<close>; or
    \<^item> the action is not a recognized one, and \<open>e\<close> is a \<open>RuntimeError\<close>; or
    \<^item> the warning is to be shown and showing it raises \<open>e\<close>.

  The warning is shown (once more) exactly when the connection was already closed, the
  warning is not in the registry, showing it does not raise, and the action is \<open>always\<close>
  or \<open>default\<close>, or \<open>once\<close> or \<open>module\<close> with the warning not yet entered in the registry of
  that action.
\<close>

theorem close_raises_only_from_warn:
  "is_open (fst (snd (close c w))) = False
   \<and> connector (fst (snd (close c w))) = connector c
   \<and> http_log (snd (snd (close c w))) = http_log w
   \<and> files (snd (snd (close c w))) = files w
   \<and> (is_open c \<longrightarrow> fst (close c w) = Inr () \<and> snd (snd (close c w)) = w)
   \<and> (fst (close c w) = Inl e \<longleftrightarrow>
        \<not> is_open c
        \<and> ''Double-closing HTTPS connection.'' \<notin> set (warn_registry (refresh_registry w))
        \<and> (case warn_filter w ''Double-closing HTTPS connection.'' of
              Act_error \<Rightarrow> e = UserWarning
            | Act_unrecognized \<Rightarrow> e = RuntimeError
            | Act_ignore \<Rightarrow> False
            | Act_once \<Rightarrow>
                ''Double-closing HTTPS connection.'' \<notin> set (once_registry w)
                \<and> showwarning w ''Double-closing HTTPS connection.'' = Some e
            | Act_module \<Rightarrow>
                ''Double-closing HTTPS connection.''
                  \<notin> set (warn_alt_registry (refresh_registry w))
                \<and> showwarning w ''Double-closing HTTPS connection.'' = Some e
            | Act_always \<Rightarrow> showwarning w ''Double-closing HTTPS connection.'' = Some e
            | Act_default \<Rightarrow> showwarning w ''Double-closing HTTPS connection.'' = Some e))
   \<and> warnings (snd (snd (close c w))) =
       (if \<not> is_open c
           \<and> ''Double-closing HTTPS connection.'' \<notin> set (warn_registry (refresh_registry w))
           \<and> showwarning w ''Double-closing HTTPS connection.'' = None
           \<and> (case warn_filter w ''Double-closing HTTPS connection.'' of
                 Act_always \<Rightarrow> True
               | Act_default \<Rightarrow> True
               | Act_once \<Rightarrow>
                   ''Double-closing HTTPS connection.'' \<notin> set (once_registry w)
               | Act_module \<Rightarrow>
                   ''Double-closing HTTPS connection.''
                     \<notin> set (warn_alt_registry (refresh_registry w))
               | Act_error \<Rightarrow> False
               | Act_ignore \<Rightarrow> False
               | Act_unrecognized \<Rightarrow> False)
        then warnings w @ [''Double-closing HTTPS connection.'']
        else warnings w)"
proof (cases "is_open c")
  case True
  then show ?thesis by (simp add: close_def)
next
  case False
  obtain r w1 where W: "warn ''Double-closing HTTPS connection.'' w = (r, w1)"
    by (cases "warn ''Double-closing HTTPS connection.'' w")
  have k: "http_log w1 = http_log w" "files w1 = files w"
    using warn_keeps [of "''Double-closing HTTPS connection.''" w] W by simp_all
  have c1: "close c w = (case r of Inl e \<Rightarrow> (Inl e, c, w1)
                              | Inr u \<Rightarrow> (Inr (), c\<lparr>is_open := False\<rparr>, w1))"
    using False W by (simp add: close_def split: sum.split)
  have r: "(r = Inl e) =
        (''Double-closing HTTPS connection.'' \<notin> set (warn_registry (refresh_registry w))
        \<and> (case warn_filter w ''Double-closing HTTPS connection.'' of
              Act_error \<Rightarrow> e = UserWarning
            | Act_unrecognized \<Rightarrow> e = RuntimeError
            | Act_ignore \<Rightarrow> False
            | Act_once \<Rightarrow>
                ''Double-closing HTTPS connection.'' \<notin> set (once_registry w)
                \<and> showwarning w ''Double-closing HTTPS connection.'' = Some e
            | Act_module \<Rightarrow>
                ''Double-closing HTTPS connection.''
                  \<notin> set (warn_alt_registry (refresh_registry w))
                \<and> showwarning w ''Double-closing HTTPS connection.'' = Some e
            | Act_always \<Rightarrow> showwarning w ''Double-closing HTTPS connection.'' = Some e
            | Act_default \<Rightarrow> showwarning w ''Double-closing HTTPS connection.'' = Some e))"
    using W
    by (auto simp add: warn_def Let_def showwarnmsg_def refresh_registry_keeps
          split: warn_action.splits option.splits if_splits)
  have s: "warnings w1 =
       (if ''Double-closing HTTPS connection.'' \<notin> set (warn_registry (refresh_registry w))
           \<and> showwarning w ''Double-closing HTTPS connection.'' = None
           \<and> (case warn_filter w ''Double-closing HTTPS connection.'' of
                 Act_always \<Rightarrow> True
               | Act_default \<Rightarrow> True
               | Act_once \<Rightarrow>
                   ''Double-closing HTTPS connection.'' \<notin> set (once_registry w)
               | Act_module \<Rightarrow>
                   ''Double-closing HTTPS connection.''
                     \<notin> set (warn_alt_registry (refresh_registry w))
               | Act_error \<Rightarrow> False
               | Act_ignore \<Rightarrow> False
               | Act_unrecognized \<Rightarrow> False)
        then warnings w @ [''Double-closing HTTPS connection.'']
        else warnings w)"
    using W
    by (auto simp add: warn_def Let_def showwarnmsg_def refresh_registry_keeps
          split: warn_action.splits option.splits if_splits)
  have f: "fst (close c w) = r"
    by (cases r) (simp_all add: c1)
  have g: "fst (snd (close c w)) = (case r of Inl e \<Rightarrow> c | Inr u \<Rightarrow> c\<lparr>is_open := False\<rparr>)"
    by (cases r) (simp_all add: c1)
  have h: "snd (snd (close c w)) = w1"
    by (cases r) (simp_all add: c1)
  have o: "is_open (fst (snd (close c w))) = False"
    using False by (cases r) (simp_all add: g)
  have n: "connector (fst (snd (close c w))) = connector c"
    by (cases r) (simp_all add: g)
  show ?thesis
    unfolding f h using False o n k r s by simp
qed

text \<open>
  The amended claim at work. A second \<open>close\<close> under the \<open>default\<close> action returns, shows
  the warning and leaves the connection closed; the same call under the \<open>error\<close> action
  raises \<open>UserWarning\<close> and nothing else, and the connection is closed all the same; a
  \<open>close\<close> of an open connection returns and closes it.
\<close>

theorem close_raises_only_from_warn_witness:
  "fst (close (sample_connection\<lparr>is_open := False\<rparr>) sample_world) = Inr ()
   \<and> is_open (fst (snd (close (sample_connection\<lparr>is_open := False\<rparr>) sample_world))) = False
   \<and> warnings (snd (snd (close (sample_connection\<lparr>is_open := False\<rparr>) sample_world)))
       = [''Double-closing HTTPS connection.'']
   \<and> (\<forall>e. fst (close (sample_connection\<lparr>is_open := False\<rparr>)
                 (sample_world\<lparr>warn_filter := (\<lambda>m. Act_error)\<rparr>)) = Inl e
          \<longleftrightarrow> e = UserWarning)
   \<and> is_open (fst (snd (close (sample_connection\<lparr>is_open := False\<rparr>)
                 (sample_world\<lparr>warn_filter := (\<lambda>m. Act_error)\<rparr>)))) = False
   \<and> fst (close sample_connection sample_world) = Inr ()
   \<and> is_open (fst (snd (close sample_connection sample_world))) = False
   \<and> snd (snd (close sample_connection sample_world)) = sample_world"
proof -
  have d: "\<And>e. (fst (close (sample_connection\<lparr>is_open := False\<rparr>) sample_world) = Inl e) = False"
    "warnings (snd (snd (close (sample_connection\<lparr>is_open := False\<rparr>) sample_world)))
       = [''Double-closing HTTPS connection.'']"
    "is_open (fst (snd (close (sample_connection\<lparr>is_open := False\<rparr>) sample_world))) = False"
    using close_raises_only_from_warn [of "sample_connection\<lparr>is_open := False\<rparr>" sample_world]
    by (simp_all add: sample_world_def refresh_registry_def)
  have d1: "fst (close (sample_connection\<lparr>is_open := False\<rparr>) sample_world) = Inr ()"
  proof (cases "fst (close (sample_connection\<lparr>is_open := False\<rparr>) sample_world)")
    case (Inl a)
    with d(1) [of a] show ?thesis by simp
  next
    case (Inr u)
    then show ?thesis by simp
  qed
  have e: "\<And>e. (fst (close (sample_connection\<lparr>is_open := False\<rparr>)
                 (sample_world\<lparr>warn_filter := (\<lambda>m. Act_error)\<rparr>)) = Inl e) = (e = UserWarning)"
    "is_open (fst (snd (close (sample_connection\<lparr>is_open := False\<rparr>)
                 (sample_world\<lparr>warn_filter := (\<lambda>m. Act_error)\<rparr>)))) = False"
    using close_raises_only_from_warn [of "sample_connection\<lparr>is_open := False\<rparr>"
            "sample_world\<lparr>warn_filter := (\<lambda>m. Act_error)\<rparr>"]
    by (simp_all add: sample_world_def refresh_registry_def)
  have o: "fst (close sample_connection sample_world) = Inr ()"
    "is_open (fst (snd (close sample_connection sample_world))) = False"
    "snd (snd (close sample_connection sample_world)) = sample_world"
    using close_raises_only_from_warn [of sample_connection sample_world]
    by (simp_all add: sample_connection_def)
  show ?thesis
    using d1 d(2) d(3) e o by simp
qed

section \<open>Unsupported operations\<close>

text \<open>
  Claim C7. For every connection, open or closed, and every argument, each of list, size,
  modified_time, make_dir and rename raises OperationNotSupportedError, and is_dir
  returns false.
\<close>

theorem unsupported_operations:
  "list_op c p pat = Inl OperationNotSupportedError
   \<and> size_op c p = Inl OperationNotSupportedError
   \<and> modified_time c p = Inl OperationNotSupportedError
   \<and> make_dir c p ov cl fi co = Inl OperationNotSupportedError
   \<and> rename c p n = Inl OperationNotSupportedError
   \<and> is_dir c p = False"
  by (simp add: list_op_def size_op_def modified_time_def make_dir_def rename_def is_dir_def)

section \<open>Evaluation lemmas\<close>

lemmas url_defs = urlparse_def urlsplit_def split_rest_def splitnetloc_def splitparams_def
  split_once_def find_chr_def rfind_chr_def is_ascii_alpha_def scheme_chars_def uses_params_def
  is_ascii_def lower_def lower_char_def Let_def

lemma urlparse_a_b_q:
  "urlparse E ''/a/b?q=1'' =
     Inr \<lparr>url_scheme = [], url_netloc = [], url_path = ''/a/b'', url_params = [],
          url_query = ''q=1'', url_fragment = []\<rparr>"
  by (simp add: url_defs)

lemma basename_a_b: "basename ''/a/b'' = ''b''"
  by (simp add: basename_def rfind_chr_def Let_def)

lemma lower_modes: "lower ''RB'' = ''rb''" "lower ''W'' = ''w''"
  by (simp_all add: lower_def lower_char_def)

section \<open>Upload\<close>

text \<open>
  Claim C1 says that the upload routine sends its PUT to the URL built from the
  connector's host and port and the remote path. The routine hands the checked remote
  path itself to the HTTP client and never calls the URL builder: on an open connection
  to \<^verbatim>\<open>example.com\<close>, port 443, uploading the local file \<^verbatim>\<open>/tmp/f\<close> to the
  remote path \<^verbatim>\<open>/a\<close> makes the single call PUT \<^verbatim>\<open>/a\<close>, while the URL builder
  gives \<^verbatim>\<open>https://example.com/a\<close> for that path.
\<close>

theorem upload_puts_to_bare_path:
  "upload sample_env sample_connection (Str ''/tmp/f'') (Str ''/a'') sample_world
     = (Inr (), sample_world\<lparr>http_log := [PUT ''/a'' ''data'']\<rparr>)
   \<and> get_url sample_connection ''/a'' = Inr ''https://example.com/a''"
  by (simp add: upload_def sample_env_def sample_connection_def sample_world_def
        http_send_def raise_for_status_def get_url_eq)

section \<open>Opening a file\<close>

lemma name_checked:
  "check_path E c q = Inr s \<Longrightarrow> urlparse E s = Inr u \<Longrightarrow> name E c q = Inr (basename (url_path u))"
  by (simp add: name_def)

lemma download_open:
  assumes "is_open c" and "check_path E c q = Inr s"
  shows "download E c q l w =
           (let url = (if port (connector c) = 443
                       then ''https://'' @ server (connector c) @ s
                       else ''https://'' @ server (connector c) @ '':''
                              @ str_int (port (connector c)) @ s);
                w1 = w\<lparr>http_log := http_log w @ [GET url]\<rparr>
            in case respond E (http_log w) (GET url) of
                 Inl e \<Rightarrow> (Inl e, w1)
               | Inr r \<Rightarrow>
                   if 400 \<le> status_code r \<and> status_code r < 600
                   then (Inl (HTTPError (status_code r)), w1)
                   else (Inr (), w1\<lparr>files := (files w1)(l \<mapsto> content r)\<rparr>))"
  using assms
  by (simp add: download_def get_url_eq http_send_def raise_for_status_def Let_def
        split: sum.splits)

text \<open>
  Claim C2. On an open connection, for a path that \<open>check_path\<close> accepts (and whose
  checked text it returns unchanged when asked again, as \<open>name\<close> and the download
  routine do) and that the URL parser accepts, \<open>open_file\<close> with mode \<open>m\<close>:
  \<^item> issues the GET for the path's URL if and only if the lower-cased mode is neither
    \<open>w\<close> nor \<open>wb\<close>, and makes no other HTTP call;
  \<^item> for \<open>w\<close> and \<open>wb\<close> succeeds without touching a local file; otherwise it fails
    with the client's exception or with HTTPError on a failure status, and on success
    the temporary file holds the response body;
  \<^item> returns a handle whose mode is the lower-cased mode, whose temporary file is the
    one allocated for the path's name, and whose write-back is absent if and only if the
    lower-cased mode is \<open>r\<close> or \<open>rb\<close>, and is this connection's upload routine
    otherwise.
\<close>

theorem open_file_download_and_writeback:
  assumes opn: "is_open c"
    and chk: "check_path E c p = Inr s"
    and chk2: "check_path E c (Str s) = Inr s"
    and prs: "urlparse E s = Inr u"
    and url: "get_url c s = Inr url"
    and tmp: "tmp = get_temp_file_path E (basename (url_path u))"
    and res: "res = open_file E c p m w"
  shows "http_log (snd res) =
           http_log w @ (if lower m \<in> {''w'', ''wb''} then [] else [GET url])
         \<and> (if lower m \<in> {''w'', ''wb''}
            then (\<exists>h. fst res = Inr h) \<and> files (snd res) = files w
            else (case respond E (http_log w) (GET url) of
                    Inl e \<Rightarrow> fst res = Inl e
                  | Inr r \<Rightarrow>
                      if ok r then (\<exists>h. fst res = Inr h) \<and> files (snd res) tmp = Some (content r)
                      else fst res = Inl (HTTPError (status_code r))))
         \<and> (\<forall>h. fst res = Inr h \<longrightarrow>
               pf_mode h = lower m
               \<and> pf_path h = PathObj s (Https c)
               \<and> pf_proxy_path h = tmp
               \<and> pf_writeback h = (if lower m \<in> {''r'', ''rb''} then None else Some (Upload c)))"
proof -
  have nm: "name E c (Str s) = Inr (basename (url_path u))"
    using chk2 prs by (rule name_checked)
  have u: "url = (if port (connector c) = 443
                       then ''https://'' @ server (connector c) @ s
                       else ''https://'' @ server (connector c) @ '':''
                              @ str_int (port (connector c)) @ s)"
    using url by (simp add: get_url_eq)
  show ?thesis
  proof (cases "lower m \<in> {''w'', ''wb''}")
    case True
    then show ?thesis
      using opn chk nm tmp res by (auto simp add: open_file_def Let_def)
  next
    case False
    then show ?thesis
      using opn chk nm tmp res u download_open [OF opn chk2, of tmp w]
      by (auto simp add: open_file_def Let_def ok_def raise_for_status_def split: sum.splits)
  qed
qed

theorem open_file_download_and_writeback_witness:
  "http_log (snd (open_file sample_env sample_connection (Str ''/a/b?q=1'') ''RB'' sample_world))
     = [GET ''https://example.com/a/b?q=1'']
   \<and> files (snd (open_file sample_env sample_connection (Str ''/a/b?q=1'') ''RB'' sample_world))
       ''/tmp/b'' = Some ''body''
   \<and> (\<exists>h. fst (open_file sample_env sample_connection (Str ''/a/b?q=1'') ''RB'' sample_world)
            = Inr h
          \<and> pf_mode h = ''rb'' \<and> pf_writeback h = None \<and> pf_proxy_path h = ''/tmp/b'')
   \<and> http_log (snd (open_file sample_env sample_connection (Str ''/a/b?q=1'') ''W'' sample_world))
       = []
   \<and> (\<exists>h. fst (open_file sample_env sample_connection (Str ''/a/b?q=1'') ''W'' sample_world)
            = Inr h
          \<and> pf_mode h = ''w'' \<and> pf_writeback h = Some (Upload sample_connection))"
proof -
  let ?p = "Str ''/a/b?q=1''"
  let ?u = "\<lparr>url_scheme = [], url_netloc = [], url_path = ''/a/b'', url_params = [],
          url_query = ''q=1'', url_fragment = []\<rparr>"
  have opn: "is_open sample_connection" by (simp add: sample_connection_def)
  have chk: "check_path sample_env sample_connection ?p = Inr ''/a/b?q=1''"
    by (simp add: sample_env_def)
  have chk2: "check_path sample_env sample_connection (Str ''/a/b?q=1'') = Inr ''/a/b?q=1''"
    by (simp add: sample_env_def)
  have prs: "urlparse sample_env ''/a/b?q=1'' = Inr ?u" by (rule urlparse_a_b_q)
  have url: "get_url sample_connection ''/a/b?q=1'' = Inr ''https://example.com/a/b?q=1''"
    by (simp add: get_url_eq sample_connection_def)
  have tmp: "''/tmp/b'' = get_temp_file_path sample_env (basename (url_path ?u))"
    by (simp add: sample_env_def basename_a_b)
  have hl: "http_log sample_world = []" by (simp add: sample_world_def)
  have rsp: "respond sample_env [] (GET ''https://example.com/a/b?q=1'')
               = Inr \<lparr>status_code = 200, content = ''body''\<rparr>"
    by (simp add: sample_env_def)
  have okr: "ok \<lparr>status_code = 200, content = ''body''\<rparr>"
    by (simp add: ok_def raise_for_status_def)
  note r = open_file_download_and_writeback
             [OF opn chk chk2 prs url tmp refl, of "''RB''" sample_world]
  note w = open_file_download_and_writeback
             [OF opn chk chk2 prs url tmp refl, of "''W''" sample_world]
  from r have R: "http_log (snd (open_file sample_env sample_connection ?p ''RB'' sample_world))
        = [GET ''https://example.com/a/b?q=1'']
     \<and> (\<exists>h. fst (open_file sample_env sample_connection ?p ''RB'' sample_world) = Inr h)
     \<and> files (snd (open_file sample_env sample_connection ?p ''RB'' sample_world)) ''/tmp/b''
         = Some ''body''
     \<and> (\<forall>h. fst (open_file sample_env sample_connection ?p ''RB'' sample_world) = Inr h \<longrightarrow>
            pf_mode h = ''rb'' \<and> pf_proxy_path h = ''/tmp/b'' \<and> pf_writeback h = None)"
    by (simp add: lower_modes hl rsp okr)
  from w have W: "http_log (snd (open_file sample_env sample_connection ?p ''W'' sample_world))
        = []
     \<and> (\<exists>h. fst (open_file sample_env sample_connection ?p ''W'' sample_world) = Inr h)
     \<and> (\<forall>h. fst (open_file sample_env sample_connection ?p ''W'' sample_world) = Inr h \<longrightarrow>
            pf_mode h = ''w'' \<and> pf_writeback h = Some (Upload sample_connection))"
    by (simp add: lower_modes hl)
  from R W show ?thesis by blast
qed

section \<open>Existence check\<close>

text \<open>
  Claim C10. On a closed connection, for a path that \<open>check_path\<close> accepts,
  \<open>is_file\<close> still issues the GET for the path's URL and returns whether the
  response is a success (or fails with the HTTP client's exception): it has no
  precondition on \<open>is_open\<close>. On the same closed connection remove, open_file, the
  download routine and the upload routine all fail with AssertionError before doing
  anything.
\<close>

theorem is_file_without_open_check:
  assumes "\<not> is_open c" and "check_path E c p = Inr s"
  shows "(\<exists>url. get_url c s = Inr url
            \<and> is_file E c p w =
                (case respond E (http_log w) (GET url) of
                   Inl e \<Rightarrow> Inl e
                 | Inr r \<Rightarrow> Inr (ok r),
                 w\<lparr>http_log := http_log w @ [GET url]\<rparr>))
         \<and> remove_op E c p w = (Inl AssertionError, w)
         \<and> open_file E c p m w = (Inl AssertionError, w)
         \<and> download E c p l w = (Inl AssertionError, w)
         \<and> upload E c lp p w = (Inl AssertionError, w)"
  using assms
  by (simp add: is_file_def remove_op_def open_file_def download_def upload_def
        get_url_eq http_send_def split: sum.splits)

theorem is_file_without_open_check_witness:
  "is_file sample_env (sample_connection\<lparr>is_open := False\<rparr>) (Str ''/a'') sample_world
     = (Inr True, sample_world\<lparr>http_log := [GET ''https://example.com/a'']\<rparr>)
   \<and> remove_op sample_env (sample_connection\<lparr>is_open := False\<rparr>) (Str ''/a'') sample_world
       = (Inl AssertionError, sample_world)"
proof -
  let ?c = "sample_connection\<lparr>is_open := False\<rparr>"
  have cl: "\<not> is_open ?c" by simp
  have chk: "check_path sample_env ?c (Str ''/a'') = Inr ''/a''"
    by (simp add: sample_env_def)
  have url: "get_url ?c ''/a'' = Inr ''https://example.com/a''"
    by (simp add: get_url_eq sample_connection_def)
  have hl: "http_log sample_world = []" by (simp add: sample_world_def)
  have rsp: "respond sample_env [] (GET ''https://example.com/a'')
               = Inr \<lparr>status_code = 200, content = ''body''\<rparr>"
    by (simp add: sample_env_def)
  have okr: "ok \<lparr>status_code = 200, content = ''body''\<rparr>"
    by (simp add: ok_def raise_for_status_def)
  from is_file_without_open_check [OF cl chk, of sample_world "''r''" "''/tmp/x''" "Str ''/tmp/f''"]
  show ?thesis by (simp add: url hl rsp okr)
qed

section \<open>Joining path elements\<close>

lemma check_all_map:
  "map (check_path E c) xs = map Inr ss \<Longrightarrow>
   check_all E c xs = Inr (map (strip [CHR ''/'', CHR 0x5C]) ss)"
proof (induction xs arbitrary: ss)
  case Nil
  then show ?case by simp
next
  case (Cons x xs)
  then obtain s ss' where ss: "ss = s # ss'" by (cases ss) auto
  with Cons.prems have h: "check_path E c x = Inr s"
    and t: "map (check_path E c) xs = map Inr ss'"
    by simp_all
  from Cons.IH [OF t] h show ?case by (simp add: ss)
qed

text \<open>On a text without a backslash, stripping slashes and backslashes strips slashes.\<close>

lemma strip_no_backslash:
  "CHR 0x5C \<notin> set s \<Longrightarrow> strip [CHR ''/'', CHR 0x5C] s = strip ''/'' s"
proof -
  assume a: "CHR 0x5C \<notin> set s"
  have l: "\<And>t. CHR 0x5C \<notin> set t \<Longrightarrow>
      dropWhile (\<lambda>c. c \<in> set [CHR ''/'', CHR 0x5C]) t = dropWhile (\<lambda>c. c \<in> set ''/'') t"
    by (rule dropWhile_cong) auto
  have b: "CHR 0x5C \<notin> set (rev (dropWhile (\<lambda>c. c \<in> set ''/'') s))"
    using a set_dropWhileD by fastforce
  show ?thesis
    unfolding strip_def lstrip_def rstrip_def
    by (simp only: l [OF a] l [OF b])
qed

text \<open>
  Claim C5, as stated, does not hold: \<open>join\<close> strips more than slashes. From the two
  segments \<^verbatim>\<open>a\<close> followed by a backslash, and \<^verbatim>\<open>b\<close>, it makes \<^verbatim>\<open>a/b\<close>: the trailing
  backslash of the first segment is stripped too, where stripping the slashes alone
  keeps it.
\<close>

theorem join_strips_backslash:
  "join sample_env sample_connection [Str [CHR ''a'', CHR 0x5C], Str ''b'']
     = Inr (PathObj ''a/b'' (Https sample_connection))
   \<and> join_spec [[CHR ''a'', CHR 0x5C], ''b''] = [CHR ''a'', CHR 0x5C, CHR ''/'', CHR ''b'']
   \<and> join sample_env sample_connection [Str [CHR ''a'', CHR 0x5C], Str ''b'']
       \<noteq> Inr (PathObj (join_spec [[CHR ''a'', CHR 0x5C], ''b'']) (Https sample_connection))"
  by (simp add: join_def join_spec_def sample_env_def strip_def lstrip_def rstrip_def
        startswith_def)

text \<open>
  Claim C5, amended. \<open>join\<close> of no segment is the path with the empty text, bound to the
  connection. For a non-empty sequence of segments that \<open>check_path\<close> accepts, returning
  the texts \<open>ss\<close>, \<open>join\<close> strips from both ends of each text its slashes and
  backslashes, joins the stripped texts with a slash, and puts one empty segment in front
  exactly when the first segment, as given, started with a slash; the result is bound to
  the connection. When \<open>check_path\<close> returns the segments as they are and no segment
  holds a backslash, this is the joined text as the specification words it.
\<close>

theorem join_strips_and_joins:
  assumes "map (check_path E c) (x # xs) = map Inr ss"
  shows "join E c [] = Inr (PathObj [] (Https c))
   \<and> join E c (x # xs) =
       Inr (PathObj
              (join_str ''/''
                 ((if startswith (path_str x) ''/'' then [[]] else [])
                  @ map (strip [CHR ''/'', CHR 0x5C]) ss))
              (Https c))
   \<and> (ss = map path_str (x # xs) \<and> (\<forall>s \<in> set ss. CHR 0x5C \<notin> set s) \<longrightarrow>
        join E c (x # xs) = Inr (PathObj (join_spec ss) (Https c)))"
proof -
  have a: "join E c [] = Inr (PathObj [] (Https c))" by (simp add: join_def)
  have b: "join E c (x # xs) =
       Inr (PathObj
              (join_str ''/''
                 ((if startswith (path_str x) ''/'' then [[]] else [])
                  @ map (strip [CHR ''/'', CHR 0x5C]) ss))
              (Https c))"
    using check_all_map [OF assms] by (simp add: join_def)
  have c: "ss = map path_str (x # xs) \<and> (\<forall>s \<in> set ss. CHR 0x5C \<notin> set s) \<longrightarrow>
        join E c (x # xs) = Inr (PathObj (join_spec ss) (Https c))"
  proof
    assume h: "ss = map path_str (x # xs) \<and> (\<forall>s \<in> set ss. CHR 0x5C \<notin> set s)"
    then have m: "map (strip [CHR ''/'', CHR 0x5C]) ss = map (strip ''/'') ss"
      by (simp add: strip_no_backslash)
    from h show "join E c (x # xs) = Inr (PathObj (join_spec ss) (Https c))"
      unfolding b m by (simp add: join_spec_def)
  qed
  from a b c show ?thesis by blast
qed

text \<open>
  The amended claim at work: the segments \<^verbatim>\<open>/a\<close>, \<^verbatim>\<open>b/\<close> and \<^verbatim>\<open>/c\<close> are joined to
  \<^verbatim>\<open>/a/b/c\<close>, which is also what the specification's wording gives.
\<close>

theorem join_strips_and_joins_witness:
  "join sample_env sample_connection [] = Inr (PathObj [] (Https sample_connection))
   \<and> join sample_env sample_connection [Str ''/a'', Str ''b/'', Str ''/c'']
       = Inr (PathObj ''/a/b/c'' (Https sample_connection))
   \<and> join_spec [''/a'', ''b/'', ''/c''] = ''/a/b/c''"
proof -
  have m: "map (check_path sample_env sample_connection) (Str ''/a'' # [Str ''b/'', Str ''/c''])
             = map Inr [''/a'', ''b/'', ''/c'']"
    by (simp add: sample_env_def)
  have j: "join_spec [''/a'', ''b/'', ''/c''] = ''/a/b/c''"
    by (simp add: join_spec_def strip_def lstrip_def rstrip_def startswith_def)
  from join_strips_and_joins [OF m] j show ?thesis
    by (simp add: strip_def lstrip_def rstrip_def startswith_def)
qed

section \<open>Loading a URL\<close>

text \<open>The URL parser raises nothing but \<open>ValueError\<close>.\<close>

lemma split_rest_error:
  "split_rest E sc nl t = Inl e \<Longrightarrow> e = ValueError"
  by (auto simp add: split_rest_def Let_def split: if_splits prod.splits)

lemma urlsplit_error:
  "urlsplit E s = Inl e \<Longrightarrow> e = ValueError"
  by (auto simp add: urlsplit_def Let_def split: if_splits prod.splits dest: split_rest_error)

lemma urlparse_error:
  "urlparse E s = Inl e \<Longrightarrow> e = ValueError"
  by (auto simp add: urlparse_def Let_def split: sum.splits prod.splits dest: urlsplit_error)

text \<open>
  The text that the parser cuts into path, query and fragment is made of characters of
  the URL; so a URL without a question mark has an empty query.
\<close>

lemma split_rest_no_query:
  "CHR ''?'' \<notin> set t \<Longrightarrow> split_rest E sc nl t = Inr (a, b, p, q, f) \<Longrightarrow> q = []"
  by (auto simp add: split_rest_def split_once_def Let_def split: if_splits dest: set_takeWhileD)

lemma urlsplit_rest:
  "urlsplit E s = Inr r \<Longrightarrow> \<exists>sc nl t. set t \<subseteq> set s \<and> split_rest E sc nl t = Inr r"
proof -
  assume a: "urlsplit E s = Inr r"
  define u2 where "u2 = filter (\<lambda>c. c \<notin> set [CHR 0x09, CHR 0x0D, CHR 0x0A])
                          (dropWhile (\<lambda>c. (of_char c :: nat) \<le> 32) s)"
  define Q where "Q = (\<exists>sc nl t. set t \<subseteq> set s \<and> split_rest E sc nl t = Inr r)"
  have s2: "set u2 \<subseteq> set s" unfolding u2_def using set_dropWhileD by fastforce
  have s3: "\<And>n. set (drop n u2) \<subseteq> set s" using s2 set_drop_subset by fastforce
  have s4: "\<And>n P. set (dropWhile P (drop n u2)) \<subseteq> set s"
    using s3 set_dropWhileD by fastforce
  have m2: "\<And>x. x \<in> set u2 \<Longrightarrow> x \<in> set s" using s2 by blast
  have m3: "\<And>x n. x \<in> set (drop n u2) \<Longrightarrow> x \<in> set s" using s3 by blast
  have m4: "\<And>x n P. x \<in> set (dropWhile P (drop n u2)) \<Longrightarrow> x \<in> set s" using s4 by blast
  have R: "\<And>sc nl t. split_rest E sc nl t = Inr r \<Longrightarrow> set t \<subseteq> set s \<Longrightarrow> Q"
    unfolding Q_def by blast
  from a have Q
    unfolding urlsplit_def u2_def [symmetric] Let_def splitnetloc_def
    by (auto split: if_splits prod.splits elim!: R dest: m2 m3 m4)
  then show ?thesis unfolding Q_def .
qed

lemma urlparse_no_query:
  assumes "CHR ''?'' \<notin> set s" and "urlparse E s = Inr u"
  shows "url_query u = []"
proof -
  from assms(2) obtain sc nl p q f where r: "urlsplit E s = Inr (sc, nl, p, q, f)"
    and uq: "url_query u = q"
    by (auto simp add: urlparse_def Let_def split: sum.splits prod.splits)
  from urlsplit_rest [OF r] obtain sc' nl' t where t: "set t \<subseteq> set s"
    and sr: "split_rest E sc' nl' t = Inr (sc, nl, p, q, f)" by blast
  from t assms(1) have "CHR ''?'' \<notin> set t" by blast
  from split_rest_no_query [OF this sr] uq show ?thesis by simp
qed

text \<open>When the parser rejects the text, so does \<open>load_url\<close>, with the parser's error.\<close>

lemma load_url_parse_error:
  assumes "urlparse E (if \<not> contains url ''://'' then ''https://'' @ url else url) = Inl e"
  shows "load_url E url = Inl ValueError"
  using assms urlparse_error [OF assms] by (auto simp add: load_url_def Let_def)





lemma urlparse_port:
  "urlparse sample_env
     (if \<not> contains ''host:8080/x'' ''://'' then ''https://'' @ ''host:8080/x''
      else ''host:8080/x'') =
   Inr \<lparr>url_scheme = ''https'', url_netloc = ''host:8080'', url_path = ''/x'',
        url_params = [], url_query = [], url_fragment = []\<rparr>"
  by (simp add: startswith_def url_defs sample_env_def)

lemma urlparse_query:
  "urlparse sample_env
     (if \<not> contains ''https://host/a/b?q=1'' ''://'' then ''https://'' @ ''https://host/a/b?q=1''
      else ''https://host/a/b?q=1'') =
   Inr \<lparr>url_scheme = ''https'', url_netloc = ''host'', url_path = ''/a/b'',
        url_params = [], url_query = ''q=1'', url_fragment = []\<rparr>"
  by (simp add: startswith_def url_defs sample_env_def)

lemma urlparse_bracket:
  "urlparse sample_env ''http://[x/y'' = Inl ValueError"
  by (simp add: url_defs sample_env_def)

lemma load_url_port:
  "load_url sample_env ''host:8080/x'' =
     Inr (PathObj ''/x?''
            (Https \<lparr>connector = \<lparr>server = ''host'', port = 8080, initial_cwd = None\<rparr>,
                    is_open = False\<rparr>))"
  by (simp add: load_url_def startswith_def url_defs split_address_def py_int_def is_space_def
        is_digit_def digits_value_def HTTPSConnector_init_def sample_env_def connect_def
        str_int_def str_nat.simps digit_char_def DEFAULT_HTTPS_PORT_def)

lemma load_url_query:
  "load_url sample_env ''https://host/a/b?q=1'' =
     Inr (PathObj ''/a/b?q=1''
            (Https \<lparr>connector = \<lparr>server = ''host'', port = 443, initial_cwd = None\<rparr>,
                    is_open = False\<rparr>))"
  by (simp add: load_url_def startswith_def url_defs split_address_def py_int_def is_space_def
        is_digit_def digits_value_def HTTPSConnector_init_def sample_env_def connect_def
        str_int_def str_nat.simps digit_char_def DEFAULT_HTTPS_PORT_def)



text \<open>
  Claim C9. When \<open>load_url\<close> accepts a URL, the parse of the URL (with \<^verbatim>\<open>https://\<close> in
  front when it has no \<^verbatim>\<open>://\<close>) succeeded, and the text of the resulting path is the
  parsed path, a question mark, and the parsed query. The question mark is there also
  when the query is empty; in particular a URL without a question mark has an empty
  query and gives a path text that is the parsed path followed by a question mark.
\<close>

theorem load_url_path_text:
  assumes "load_url E url = Inr P"
  shows "\<exists>u. urlparse E (if \<not> contains url ''://'' then ''https://'' @ url else url) = Inr u
     \<and> path_str P = url_path u @ ''?'' @ url_query u
     \<and> (url_query u = [] \<longrightarrow> path_str P = url_path u @ ''?'')
     \<and> (CHR ''?'' \<notin> set url \<longrightarrow> url_query u = [] \<and> path_str P = url_path u @ ''?'')"
proof -
  let ?url = "if \<not> contains url ''://'' then ''https://'' @ url else url"
  from assms obtain u where u: "urlparse E ?url = Inr u"
    by (auto simp add: load_url_def Let_def split: sum.splits)
  from assms u have p: "path_str P = url_path u @ ''?'' @ url_query u"
    by (auto simp add: load_url_def Let_def split: sum.splits if_splits prod.splits)
  have q: "CHR ''?'' \<notin> set url \<longrightarrow> url_query u = []"
  proof
    assume "CHR ''?'' \<notin> set url"
    then have "CHR ''?'' \<notin> set ?url" by simp
    from urlparse_no_query [OF this u] show "url_query u = []" .
  qed
  from u p q show ?thesis by auto
qed

text \<open>
  The claim at work: the URL \<^verbatim>\<open>host:8080/x\<close>, which has no query, gives the path text
  \<^verbatim>\<open>/x?\<close>, and the URL \<^verbatim>\<open>https://host/a/b?q=1\<close> gives \<^verbatim>\<open>/a/b?q=1\<close>.
\<close>

theorem load_url_path_text_witness:
  "(\<exists>P. load_url sample_env ''host:8080/x'' = Inr P \<and> path_str P = ''/x?'')
   \<and> (\<exists>P. load_url sample_env ''https://host/a/b?q=1'' = Inr P \<and> path_str P = ''/a/b?q=1'')"
proof -
  from load_url_path_text [OF load_url_port] urlparse_port
  have a: "\<exists>P. load_url sample_env ''host:8080/x'' = Inr P \<and> path_str P = ''/x?''"
    by (auto simp add: load_url_port)
  from load_url_path_text [OF load_url_query] urlparse_query
  have b: "\<exists>P. load_url sample_env ''https://host/a/b?q=1'' = Inr P
              \<and> path_str P = ''/a/b?q=1''"
    by (auto simp add: load_url_query)
  from a b show ?thesis by blast
qed

section \<open>Name and parent directory\<close>

















end
